theory Spec2Isabelle
  imports Complex_Main
begin

section \<open>The receivables panel: data\<close>

text \<open>
  The development embeds \<^verbatim>\<open>src/components/receivables-management.tsx\<close>, the React
  component \<^verbatim>\<open>ReceivablesManagement\<close>: its view state, its three handlers
  (\<^verbatim>\<open>loadInitialData\<close>, \<^verbatim>\<open>handleLoadMore\<close>, \<^verbatim>\<open>handleDownload\<close>) and the table it
  renders. Every \<^verbatim>\<open>await\<close> splits a handler into the part that runs before the
  request is sent and the part that runs on the response.
\<close>

subsection \<open>JavaScript numbers and \<^verbatim>\<open>toFixed(2)\<close>\<close>

text \<open>
  A JavaScript number is NaN, one of the two infinities, or a finite double. Every finite
  double is a rational number, and \<^verbatim>\<open>Number.prototype.toFixed\<close> is specified on that
  mathematical value, so a finite number carries it as a \<^typ>\<open>rat\<close>.
\<close>

datatype number = NaN | PosInfinity | NegInfinity | Finite rat

text \<open>The decimal digits of a natural number, most significant first.\<close>

definition digit :: "nat \<Rightarrow> char" where
  "digit d = ''0123456789'' ! (d mod 10)"

function decimal :: "nat \<Rightarrow> string" where
  "decimal n = (if n < 10 then [digit n] else decimal (n div 10) @ [digit (n mod 10)])"
  by pat_completeness auto
termination
  by (relation "measure (\<lambda>n. n)") auto

declare decimal.simps [simp del]

text \<open>
  \<^verbatim>\<open>x.toFixed(2)\<close>, following the steps of ECMAScript's Number.prototype.toFixed with
  \<open>fractionDigits = 2\<close>. A number that is not finite is printed by Number::toString.
  A negative value is printed as a minus sign and its magnitude. A magnitude of
  \<open>10\<^sup>2\<^sup>1\<close> or more is also handed to Number::toString, which prints it in exponent
  notation: that printer is the engine's, and is the parameter \<open>numberToString\<close> here.
  Below \<open>10\<^sup>2\<^sup>1\<close>, \<open>n\<close> is the integer nearest to \<open>100 * x\<close> (the larger one on a
  tie), its digits are padded with zeros to at least three, and the point is put before
  the last two.
\<close>

definition toFixed2 :: "(rat \<Rightarrow> string) \<Rightarrow> number \<Rightarrow> string" where
  "toFixed2 numberToString v =
     (case v of
        NaN \<Rightarrow> ''NaN''
      | PosInfinity \<Rightarrow> ''Infinity''
      | NegInfinity \<Rightarrow> ''-Infinity''
      | Finite x0 \<Rightarrow>
          (let f = (2::nat);
               s = (if x0 < 0 then ''-'' else '''');
               x = (if x0 < 0 then - x0 else x0)
           in if x \<ge> 10 ^ 21 then s @ numberToString x
              else
                (let n = nat \<lfloor>x * 10 ^ f + 1 / 2\<rfloor>;
                     m = (if n = 0 then ''0'' else decimal n);
                     k = length m;
                     m' = (if k \<le> f then replicate (f + 1 - k) (CHR ''0'') @ m else m);
                     k' = (if k \<le> f then f + 1 else k);
                     a = take (k' - f) m';
                     b = drop (k' - f) m'
                 in s @ a @ ''.'' @ b)))"

text \<open>
  What "exactly two decimal places" means for a printed amount: an optional minus sign,
  at least one digit, a point, and two digits.
\<close>

definition is_digit :: "char \<Rightarrow> bool" where
  "is_digit c = (c \<in> set ''0123456789'')"

definition two_decimal_places :: "string \<Rightarrow> bool" where
  "two_decimal_places str =
     (let body = (case str of c # cs \<Rightarrow> (if c = CHR ''-'' then cs else str) | [] \<Rightarrow> str)
      in case rev body of
           d2 # d1 # p # ds \<Rightarrow>
             is_digit d2 \<and> is_digit d1 \<and> p = CHR ''.'' \<and> ds \<noteq> [] \<and> list_all is_digit ds
         | _ \<Rightarrow> False)"

subsection \<open>Customers, the signed-in user, the collaborators\<close>

text \<open>
  Modelled from the spec: the type \<^verbatim>\<open>CustomerWithDue\<close> of \<^verbatim>\<open>@/lib/types\<close> is not
  among the sources. The spec gives it an identifier, a display name, a phone number and
  a numeric outstanding balance; the component reads exactly these four fields.
\<close>

record CustomerWithDue =
  id' :: string
  name :: string
  phone :: string
  dueBalance :: number

text \<open>
  Modelled from the spec: the user object of \<^verbatim>\<open>useAuth\<close> is not among the sources.
  The component reads five fields of it, each through a truthiness test or an \<^verbatim>\<open>||\<close>
  default, so each is a string that may be missing.
\<close>

record AuthUser =
  companyName :: "string option"
  address :: "string option"
  userPhone :: "string option"
  bkashNumber :: "string option"
  bankInfo :: "string option"

text \<open>The cursor \<^verbatim>\<open>lastVisible\<close> and the argument of the paginated fetch.\<close>

record Cursor =
  cursorId :: string
  cursorDueBalance :: number

record PageRequest =
  reqUserId :: string
  pageLimit :: nat
  lastVisible :: "Cursor option"

text \<open>The response of the paginated fetch.\<close>

record PageResult =
  customersWithDue :: "CustomerWithDue list"
  resHasMore :: bool

text \<open>A reading of the clock (\<^verbatim>\<open>new Date()\<close>), in local time.\<close>

datatype month = January | February | March | April | May | June | July
  | August | September | October | November | December

record date =
  fullYear :: nat
  getMonth :: month
  getDate :: nat

text \<open>
  What the component gets from outside: its prop, the hooks' values, the two data-access
  functions, the engine's number printer, and the clock at the two places where
  \<^verbatim>\<open>handleDownload\<close> reads it.
\<close>

record env =
  userId :: string
  authUser :: "AuthUser option"
  getCustomersWithDueBalancePaginated :: "PageRequest \<Rightarrow> PageResult"
  getCustomersWithDueBalance :: "string \<Rightarrow> CustomerWithDue list"
  numberToString :: "rat \<Rightarrow> string"
  reportClock :: date
  headerClock :: date

subsection \<open>View state\<close>

record state =
  customers :: "CustomerWithDue list"
  hasMore :: bool
  isInitialLoading :: bool
  isLoadingMore :: bool

text \<open>The four \<^verbatim>\<open>useState\<close> initial values.\<close>

definition initial_state :: state where
  "initial_state =
     \<lparr>customers = [], hasMore = True, isInitialLoading = True, isLoadingMore = False\<rparr>"

section \<open>The handlers\<close>

subsection \<open>Initial load\<close>




subsection \<open>Load more\<close>

datatype js_error = TypeError

text \<open>
  How the part of \<^verbatim>\<open>handleLoadMore\<close> before its \<^verbatim>\<open>await\<close> ends: it returned at the
  guard, it threw, or it sent a request and waits for the response.
\<close>

datatype load_more = Skipped | Threw js_error | Awaiting PageRequest

text \<open>
  \<^verbatim>\<open>handleLoadMore\<close> up to its \<^verbatim>\<open>await\<close>. \<^verbatim>\<open>customers[customers.length - 1]\<close> is
  \<^verbatim>\<open>undefined\<close> on an empty array, and reading \<^verbatim>\<open>.id\<close> of \<^verbatim>\<open>undefined\<close> throws a
  TypeError; by then \<^verbatim>\<open>setIsLoadingMore(true)\<close> has run.
\<close>

definition handleLoadMore_begin :: "env \<Rightarrow> state \<Rightarrow> load_more \<times> state" where
  "handleLoadMore_begin e st =
     (if \<not> hasMore st \<or> isLoadingMore st then (Skipped, st)
      else
        (let st1 = st\<lparr>isLoadingMore := True\<rparr>;
             lastCustomer =
               (if length (customers st) = 0 then None
                else Some (customers st ! (length (customers st) - 1)))
         in case lastCustomer of
              None \<Rightarrow> (Threw TypeError, st1)
            | Some c \<Rightarrow>
                (let lastVisible =
                       \<lparr>cursorId = id' c, cursorDueBalance = dueBalance c\<rparr>
                 in (Awaiting \<lparr>reqUserId = userId e, pageLimit = 5,
                                lastVisible = Some lastVisible\<rparr>, st1))))"

text \<open>
  \<^verbatim>\<open>handleLoadMore\<close> from the response on. \<^verbatim>\<open>setCustomers\<close> is given an updater
  (\<^verbatim>\<open>prev => [...prev, ...newCustomers]\<close>), so the page is appended to the list of the
  state the update is applied to.
\<close>

definition handleLoadMore_resume :: "PageResult \<Rightarrow> state \<Rightarrow> state" where
  "handleLoadMore_resume res st =
     (let newCustomers = customersWithDue res;
          newHasMore = resHasMore res;
          st1 = st\<lparr>customers := customers st @ newCustomers\<rparr>;
          st2 = st1\<lparr>hasMore := newHasMore\<rparr>
      in st2\<lparr>isLoadingMore := False\<rparr>)"

text \<open>The whole handler, when nothing else runs while the request is pending.\<close>

definition handleLoadMore :: "env \<Rightarrow> state \<Rightarrow> load_more \<times> state" where
  "handleLoadMore e st =
     (case handleLoadMore_begin e st of
        (Awaiting req, st1) \<Rightarrow>
          (Awaiting req, handleLoadMore_resume (getCustomersWithDueBalancePaginated e req) st1)
      | r \<Rightarrow> r)"

subsection \<open>Report export\<close>

text \<open>
  The two date formats the handler asks of \<^verbatim>\<open>format\<close> (date-fns, default locale):
  \<^verbatim>\<open>yyyy-MM-dd\<close> pads the year to four digits and the month and the day to two;
  \<^verbatim>\<open>PPP\<close> is the long date, such as \<^verbatim>\<open>April 29th, 2023\<close>.
\<close>

definition padStart :: "nat \<Rightarrow> char \<Rightarrow> string \<Rightarrow> string" where
  "padStart n c str = replicate (n - length str) c @ str"

definition addLeadingZeros :: "nat \<Rightarrow> nat \<Rightarrow> string" where
  "addLeadingZeros v targetLength = padStart targetLength (CHR ''0'') (decimal v)"

fun month_index :: "month \<Rightarrow> nat" where
  "month_index January = 0"
| "month_index February = 1"
| "month_index March = 2"
| "month_index April = 3"
| "month_index May = 4"
| "month_index June = 5"
| "month_index July = 6"
| "month_index August = 7"
| "month_index September = 8"
| "month_index October = 9"
| "month_index November = 10"
| "month_index December = 11"

fun month_name :: "month \<Rightarrow> string" where
  "month_name January = ''January''"
| "month_name February = ''February''"
| "month_name March = ''March''"
| "month_name April = ''April''"
| "month_name May = ''May''"
| "month_name June = ''June''"
| "month_name July = ''July''"
| "month_name August = ''August''"
| "month_name September = ''September''"
| "month_name October = ''October''"
| "month_name November = ''November''"
| "month_name December = ''December''"

definition ordinalNumber :: "nat \<Rightarrow> string" where
  "ordinalNumber v =
     (let rem100 = v mod 100
      in if rem100 > 20 \<or> rem100 < 10 then
           (if rem100 mod 10 = 1 then decimal v @ ''st''
            else if rem100 mod 10 = 2 then decimal v @ ''nd''
            else if rem100 mod 10 = 3 then decimal v @ ''rd''
            else decimal v @ ''th'')
         else decimal v @ ''th'')"

definition format_yyyy_MM_dd :: "date \<Rightarrow> string" where
  "format_yyyy_MM_dd d =
     addLeadingZeros (fullYear d) 4 @ ''-'' @ addLeadingZeros (month_index (getMonth d) + 1) 2
       @ ''-'' @ addLeadingZeros (getDate d) 2"

definition format_PPP :: "date \<Rightarrow> string" where
  "format_PPP d =
     month_name (getMonth d) @ '' '' @ ordinalNumber (getDate d) @ '', '' @ decimal (fullYear d)"

text \<open>
  A row of the report is an object with three keys, in the order they are written; as an
  association list, \<^verbatim>\<open>Object.values\<close> is the list of its second components.
\<close>

type_synonym row = "(string \<times> string) list"

definition Object_values :: "row \<Rightarrow> string list" where
  "Object_values r = map snd r"

text \<open>
  \<^verbatim>\<open>Papa.unparse\<close> on an array of objects, as the records it writes: the keys of the
  first object as the header, then for every object its values at these keys (an absent
  one is written as the empty string). Quoting the fields and joining them into text is
  the library's and is not modelled: a CSV file is the list of its records here.
\<close>

definition unparse :: "row list \<Rightarrow> string list list" where
  "unparse data =
     (case data of
        [] \<Rightarrow> []
      | first # _ \<Rightarrow>
          (let fields = map fst first
           in fields #
              map (\<lambda>r. map (\<lambda>fld. case map_of r fld of None \<Rightarrow> [] | Some v \<Rightarrow> v) fields)
                data))"

text \<open>What is done to the jsPDF document, call by call.\<close>

datatype align = AlignRight | AlignCenter

datatype pdf_cmd =
    SetFontSize nat
  | SetFont string string
  | SetTextColor nat
  | Text string nat nat "align option"
  | AutoTable nat "string list list" "string list list"

record Toast =
  variant :: string
  title :: string
  description :: string

datatype formatType = Pdf | Csv

text \<open>
  How \<^verbatim>\<open>handleDownload\<close> ends: with the notice, with \<^verbatim>\<open>doc.save\<close> of a document
  under a file name, or with the click on a link that downloads a blob (its records, its
  MIME type) under a file name.
\<close>

datatype download =
    Notified Toast
  | SavedPdf "pdf_cmd list" string
  | DownloadedCsv "string list list" string string

text \<open>\<^verbatim>\<open>v || dflt\<close> and the truthiness of a string that may be missing.\<close>

definition or_else :: "string option \<Rightarrow> string \<Rightarrow> string" where
  "or_else v dflt = (case v of None \<Rightarrow> dflt | Some str \<Rightarrow> (if str = [] then dflt else str))"

definition truthy :: "string option \<Rightarrow> bool" where
  "truthy v = (case v of None \<Rightarrow> False | Some str \<Rightarrow> str \<noteq> [])"

text \<open>
  \<^verbatim>\<open>handleDownload\<close>. It calls no state setter, so the state it returns is the one it
  was given.
\<close>

definition handleDownload :: "env \<Rightarrow> formatType \<Rightarrow> state \<Rightarrow> download \<times> state" where
  "handleDownload e formatType st =
     (let allCustomersWithDue = getCustomersWithDueBalance e (userId e)
      in if length allCustomersWithDue = 0 \<or> authUser e = None then
           (Notified \<lparr>variant = ''destructive'', title = ''No Data'',
              description = ''There are no pending receivables to download.''\<rparr>, st)
         else
           (let u = the (authUser e);
                reportDate = format_yyyy_MM_dd (reportClock e);
                body = map (\<lambda>c. [(''Customer'', name c), (''Phone'', phone c),
                                 (''Due Amount'',
                                  ''$'' @ toFixed2 (numberToString e) (dueBalance c))])
                         allCustomersWithDue
            in if formatType = Pdf then
                 (let dateString = format_PPP (headerClock e);
                      left =
                        [SetFontSize 16, SetFont ''helvetica'' ''bold'',
                         Text (or_else (companyName u) ''Bookstore'') 14 20 None,
                         SetFontSize 10, SetFont ''helvetica'' ''normal'',
                         Text (or_else (address u) []) 14 26 None,
                         Text (or_else (userPhone u) []) 14 32 None];
                      yPos = (20::nat);
                      bkash =
                        (if truthy (bkashNumber u)
                         then [Text (''Bkash: '' @ the (bkashNumber u)) 200 yPos (Some AlignRight)]
                         else []);
                      yPos' = (if truthy (bkashNumber u) then yPos + 6 else yPos);
                      bank =
                        (if truthy (bankInfo u)
                         then [Text (''Bank: '' @ the (bankInfo u)) 200 yPos' (Some AlignRight)]
                         else []);
                      heading =
                        [SetFontSize 14, SetFont ''helvetica'' ''bold'',
                         Text ''Pending Receivables Report'' 105 45 (Some AlignCenter),
                         SetFontSize 10, SetFont ''helvetica'' ''normal'',
                         SetTextColor 100,
                         Text (''As of '' @ dateString) 105 51 (Some AlignCenter),
                         SetTextColor 0];
                      table =
                        [AutoTable 60 [[''Customer'', ''Phone'', ''Due Amount'']]
                           (map Object_values body)]
                  in (SavedPdf (left @ bkash @ bank @ heading @ table)
                        (''pending-receivables-'' @ reportDate @ ''.pdf''), st))
               else
                 (let csv = unparse body
                  in (DownloadedCsv csv ''text/csv;charset=utf-8;''
                        (''pending-receivables-'' @ reportDate @ ''.csv''), st))))"

text \<open>Readers of what an export produced.\<close>

fun notice :: "download \<Rightarrow> Toast option" where
  "notice (Notified t) = Some t"
| "notice _ = None"

fun file_name :: "download \<Rightarrow> string option" where
  "file_name (Notified t) = None"
| "file_name (SavedPdf doc fname) = Some fname"
| "file_name (DownloadedCsv csv mime fname) = Some fname"

fun table_bodies :: "pdf_cmd list \<Rightarrow> string list list list" where
  "table_bodies [] = []"
| "table_bodies (AutoTable y hd_rows body_rows # cmds) = body_rows # table_bodies cmds"
| "table_bodies (c # cmds) = table_bodies cmds"

fun pdf_table_body :: "download \<Rightarrow> string list list option" where
  "pdf_table_body (SavedPdf doc fname) =
     (case table_bodies doc of [rows] \<Rightarrow> Some rows | _ \<Rightarrow> None)"
| "pdf_table_body _ = None"

fun csv_records :: "download \<Rightarrow> string list list option" where
  "csv_records (DownloadedCsv csv mime fname) = Some csv"
| "csv_records _ = None"

fun csv_data_rows :: "download \<Rightarrow> string list list option" where
  "csv_data_rows (DownloadedCsv csv mime fname) =
     (case csv of [] \<Rightarrow> None | header # rows \<Rightarrow> Some rows)"
| "csv_data_rows _ = None"

section \<open>The rendered table\<close>

text \<open>
  The parts of the rendered card that depend on the state (the card header, the buttons
  of the exports and the header of the table are the same in every state). The body of
  the table: five skeleton rows, keyed \<^verbatim>\<open>skeleton-0\<close> to \<^verbatim>\<open>skeleton-4\<close>, while the
  first page is pending; otherwise one row per loaded customer (its key, the link to the
  customer's page, the name, the phone, the amount), or the single row saying there is
  nothing to show. Below it, the "Load More" button is there when \<^verbatim>\<open>hasMore\<close> holds
  and is disabled while a further page is loading.
\<close>

datatype table_row =
    SkeletonRow string
  | CustomerRow string string string string string
  | EmptyRow string

record Button =
  disabled :: bool

record view =
  tableBody :: "table_row list"
  loadMoreButton :: "Button option"

definition render :: "env \<Rightarrow> state \<Rightarrow> view" where
  "render e st =
     \<lparr>tableBody =
        (if isInitialLoading st then
           map (\<lambda>i. SkeletonRow (''skeleton-'' @ decimal i)) [0..<5]
         else if length (customers st) > 0 then
           map (\<lambda>customer.
                  CustomerRow (id' customer) (''/customers/'' @ id' customer) (name customer)
                    (phone customer)
                    (''$'' @ toFixed2 (numberToString e) (dueBalance customer)))
             (customers st)
         else [EmptyRow ''No pending receivables. Great job!'']),
      loadMoreButton =
        (if hasMore st then Some \<lparr>disabled = isLoadingMore st\<rparr> else None)\<rparr>"

text \<open>The amount shown in a row of the table, if the row shows one.\<close>

fun row_amount :: "table_row \<Rightarrow> string option" where
  "row_amount (CustomerRow key href nm ph amount) = Some amount"
| "row_amount _ = None"

section \<open>Runs of the component\<close>







section \<open>Sample data\<close>

text \<open>Three customers, a signed-in user, an environment and a state, for the examples.\<close>

definition ann :: CustomerWithDue where
  "ann = \<lparr>id' = ''c1'', name = ''Ann'', phone = ''0171'', dueBalance = Finite (5 / 4)\<rparr>"

definition bob :: CustomerWithDue where
  "bob = \<lparr>id' = ''c2'', name = ''Bob'', phone = ''0181'', dueBalance = Finite 20\<rparr>"

definition carl :: CustomerWithDue where
  "carl = \<lparr>id' = ''c3'', name = ''Carl'', phone = ''0191'', dueBalance = NaN\<rparr>"

definition shop :: AuthUser where
  "shop = \<lparr>companyName = Some ''Boi Ghor'', address = Some ''Dhaka'', userPhone = None,
     bkashNumber = Some ''0199'', bankInfo = None\<rparr>"

definition demo_env :: env where
  "demo_env =
     \<lparr>userId = ''u1'', authUser = Some shop,
      getCustomersWithDueBalancePaginated =
        (\<lambda>req. \<lparr>customersWithDue = [bob], resHasMore = False\<rparr>),
      getCustomersWithDueBalance = (\<lambda>uid. [ann, bob]),
      numberToString = (\<lambda>x. []),
      reportClock = \<lparr>fullYear = 2026, getMonth = November, getDate = 2\<rparr>,
      headerClock = \<lparr>fullYear = 2026, getMonth = November, getDate = 2\<rparr>\<rparr>"

definition loaded_state :: state where
  "loaded_state =
     \<lparr>customers = [ann], hasMore = True, isInitialLoading = False, isLoadingMore = False\<rparr>"

lemmas fixtures = ann_def bob_def carl_def shop_def demo_env_def loaded_state_def
  initial_state_def

section \<open>Printed numbers\<close>

lemma is_digit_digit: "is_digit (digit d)"
proof -
  have all: "\<forall>k \<in> set [0..<10]. is_digit (''0123456789'' ! k)"
    by code_simp
  have "d mod 10 \<in> set [0..<10]" by simp
  with all show ?thesis
    unfolding digit_def by blast
qed

lemma decimal_small: "n < 10 \<Longrightarrow> decimal n = [digit n]"
  by (simp add: decimal.simps [of n])

lemma decimal_digits: "list_all is_digit (decimal n)"
proof (induction n rule: decimal.induct)
  case (1 n)
  show ?case
  proof (cases "n < 10")
    case True
    then show ?thesis by (simp add: decimal_small is_digit_digit)
  next
    case False
    with 1 show ?thesis by (simp add: decimal.simps [of n] is_digit_digit)
  qed
qed

lemma decimal_nonempty: "decimal n \<noteq> []"
  by (simp add: decimal.simps [of n])

lemma is_digit_not_minus: "is_digit c \<Longrightarrow> c \<noteq> CHR ''-''"
  by (auto simp: is_digit_def)

text \<open>Digits, a point and two digits have two decimal places, with or without a sign.\<close>

lemma two_decimal_places_shape:
  assumes "list_all is_digit a" "a \<noteq> []" "list_all is_digit b" "length b = 2"
  shows "two_decimal_places (a @ ''.'' @ b) \<and> two_decimal_places (''-'' @ a @ ''.'' @ b)"
proof -
  from assms(4) obtain b1 b2 where b: "b = [b1, b2]"
    by (cases b; cases "tl b"; auto)
  from assms(2) obtain a1 as where a: "a = a1 # as"
    by (cases a) auto
  from assms(1) a have a1: "a1 \<noteq> CHR ''-''"
    by (simp add: is_digit_not_minus)
  have ra: "list_all is_digit (rev a)" "rev a \<noteq> []"
    using assms(1,2) by (simp_all add: list_all_iff)
  have r: "rev (a @ ''.'' @ b) = b2 # b1 # CHR ''.'' # rev a"
    by (simp add: b)
  have bd: "is_digit b1" "is_digit b2"
    using assms(3) by (simp_all add: b)
  have strip1:
    "(case a @ ''.'' @ b of c # cs \<Rightarrow> (if c = CHR ''-'' then cs else a @ ''.'' @ b)
        | [] \<Rightarrow> a @ ''.'' @ b) = a @ ''.'' @ b"
    using a1 by (simp add: a)
  have strip2:
    "(case ''-'' @ a @ ''.'' @ b of
          c # cs \<Rightarrow> (if c = CHR ''-'' then cs else ''-'' @ a @ ''.'' @ b)
        | [] \<Rightarrow> ''-'' @ a @ ''.'' @ b) = a @ ''.'' @ b"
    by simp
  have "two_decimal_places (a @ ''.'' @ b)"
    unfolding two_decimal_places_def strip1 Let_def r using ra bd by simp
  moreover have "two_decimal_places (''-'' @ a @ ''.'' @ b)"
    unfolding two_decimal_places_def strip2 Let_def r using ra bd by simp
  ultimately show ?thesis by simp
qed

text \<open>Below \<open>10\<^sup>2\<^sup>1\<close> in magnitude, \<^verbatim>\<open>toFixed(2)\<close> prints two decimal places.\<close>

lemma toFixed2_finite:
  assumes "\<bar>x\<bar> < 10 ^ 21"
  shows "two_decimal_places (toFixed2 ts (Finite x))"
proof -
  define n where "n = nat \<lfloor>\<bar>x\<bar> * 10 ^ 2 + 1 / 2\<rfloor>"
  define m where "m = (if n = 0 then ''0'' else decimal n)"
  define m' where
    "m' = (if length m \<le> 2 then replicate (3 - length m) (CHR ''0'') @ m else m)"
  define k' where "k' = (if length m \<le> 2 then 3 else length m)"
  have md: "list_all is_digit m"
    by (simp add: m_def decimal_digits is_digit_def)
  have m'd: "list_all is_digit m'"
    using md by (simp add: m'_def is_digit_def list_all_iff)
  have len: "length m' = k'" "3 \<le> k'"
    by (auto simp: m'_def k'_def)
  have parts: "list_all is_digit (take (k' - 2) m')" "take (k' - 2) m' \<noteq> []"
    "list_all is_digit (drop (k' - 2) m')" "length (drop (k' - 2) m') = 2"
    using m'd len by (auto simp: list_all_iff dest: in_set_takeD in_set_dropD)
  have eq: "toFixed2 ts (Finite x) =
      (if x < 0 then ''-'' else []) @ take (k' - 2) m' @ ''.'' @ drop (k' - 2) m'"
    using assms
    by (simp add: toFixed2_def Let_def n_def m_def m'_def k'_def abs_if
          numeral_2_eq_2 numeral_3_eq_3)
  show ?thesis
    using two_decimal_places_shape [OF parts] by (simp add: eq)
qed

lemma toFixed2_NaN: "toFixed2 ts NaN = ''NaN''"
  by (simp add: toFixed2_def)

lemma toFixed2_ann: "toFixed2 (\<lambda>x. []) (Finite (5 / 4)) = ''1.25''"
  by code_simp

lemma toFixed2_bob: "toFixed2 (\<lambda>x. []) (Finite 20) = ''20.00''"
  by code_simp

lemma format_demo:
  "format_yyyy_MM_dd \<lparr>fullYear = 2026, getMonth = November, getDate = 2\<rparr> = ''2026-11-02''"
  by code_simp

section \<open>Load more\<close>

lemma last_index: "xs \<noteq> [] \<Longrightarrow> xs ! (length xs - Suc 0) = last xs"
  by (simp add: last_conv_nth)

text \<open>
  Claim C2, as amended. In every state whose customer list is not empty, where
  \<^verbatim>\<open>hasMore\<close> holds and no further page is loading, "load more" calls the paginated
  fetch with the page size 5 and a cursor whose fields are the id and the due balance of
  the last customer of the list. (Without the two conditions on the flags the handler
  returns at its guard and calls nothing: see the counterexample.)
\<close>

theorem load_more_cursor:
  assumes "customers st \<noteq> []" and "hasMore st" and "\<not> isLoadingMore st"
  shows "fst (handleLoadMore_begin e st) =
           Awaiting \<lparr>reqUserId = userId e, pageLimit = 5,
             lastVisible = Some \<lparr>cursorId = id' (last (customers st)),
                                 cursorDueBalance = dueBalance (last (customers st))\<rparr>\<rparr>"
  using assms
  by (simp add: handleLoadMore_begin_def Let_def last_index)

theorem load_more_cursor_witness:
  "fst (handleLoadMore_begin demo_env loaded_state) =
     Awaiting \<lparr>reqUserId = ''u1'', pageLimit = 5,
       lastVisible = Some \<lparr>cursorId = ''c1'', cursorDueBalance = Finite (5 / 4)\<rparr>\<rparr>"
  using load_more_cursor [of loaded_state demo_env]
  by (simp add: fixtures)

text \<open>
  The claim as it is written fails in a state with one customer loaded and no further
  page: nothing is fetched.
\<close>

theorem load_more_cursor_counterexample:
  "customers (loaded_state\<lparr>hasMore := False\<rparr>) \<noteq> []
   \<and> handleLoadMore_begin demo_env (loaded_state\<lparr>hasMore := False\<rparr>) =
       (Skipped, loaded_state\<lparr>hasMore := False\<rparr>)"
  by (simp add: fixtures handleLoadMore_begin_def)

text \<open>
  Claim C3. In every state where \<^verbatim>\<open>hasMore\<close> is false or a further page is already
  loading, "load more" fetches nothing and leaves the whole state (the list, \<^verbatim>\<open>hasMore\<close>
  and both loading flags) as it was.
\<close>

theorem load_more_guard:
  assumes "\<not> hasMore st \<or> isLoadingMore st"
  shows "handleLoadMore_begin e st = (Skipped, st) \<and> handleLoadMore e st = (Skipped, st)"
  using assms by (simp add: handleLoadMore_def handleLoadMore_begin_def)

theorem load_more_guard_witness:
  "handleLoadMore demo_env (loaded_state\<lparr>hasMore := False\<rparr>) =
     (Skipped, loaded_state\<lparr>hasMore := False\<rparr>)
   \<and> handleLoadMore demo_env (loaded_state\<lparr>isLoadingMore := True\<rparr>) =
     (Skipped, loaded_state\<lparr>isLoadingMore := True\<rparr>)"
  using load_more_guard [of "loaded_state\<lparr>hasMore := False\<rparr>" demo_env]
    load_more_guard [of "loaded_state\<lparr>isLoadingMore := True\<rparr>" demo_env]
  by (simp add: loaded_state_def)

text \<open>
  Claim C4. Whatever list is loaded when the response of a "load more" fetch arrives, and
  whatever page it brings, the new list is the old one followed by the page's customers:
  the old list is a prefix of the new one, so nothing loaded before is dropped, replaced
  or moved. The same holds of a whole run of the handler, which leaves the list alone
  when it fetches nothing.
\<close>

theorem load_more_appends:
  "customers (handleLoadMore_resume res st) = customers st @ customersWithDue res
   \<and> take (length (customers st)) (customers (handleLoadMore_resume res st)) = customers st
   \<and> (case handleLoadMore e st of
        (Awaiting req, st') \<Rightarrow>
          customers st' =
            customers st @ customersWithDue (getCustomersWithDueBalancePaginated e req)
      | (r, st') \<Rightarrow> customers st' = customers st)"
  by (simp add: handleLoadMore_def handleLoadMore_begin_def handleLoadMore_resume_def Let_def)

theorem load_more_appends_witness:
  "customers (handleLoadMore_resume \<lparr>customersWithDue = [bob], resHasMore = False\<rparr> loaded_state)
     = [ann, bob]"
  using load_more_appends
    [of "\<lparr>customersWithDue = [bob], resHasMore = False\<rparr>" loaded_state demo_env]
  by (simp add: loaded_state_def)

text \<open>
  Claim C5. When \<^verbatim>\<open>hasMore\<close> holds and no further page is loading, "load more" reads
  the last element of the list without looking at its length: it gets as far as a request
  exactly when the list is not empty, and on an empty list it throws a TypeError at the
  undefined element. The state the component starts in is such a state, with an empty
  list, and its "Load More" button is shown and enabled.
\<close>

theorem load_more_needs_customer:
  "(hasMore st \<and> \<not> isLoadingMore st \<longrightarrow>
      (fst (handleLoadMore_begin e st) = Threw TypeError) = (customers st = [])
    \<and> ((\<exists>req. fst (handleLoadMore_begin e st) = Awaiting req) = (customers st \<noteq> [])))
   \<and> fst (handleLoadMore_begin e initial_state) = Threw TypeError
   \<and> loadMoreButton (render e initial_state) = Some \<lparr>disabled = False\<rparr>"
  by (auto simp add: handleLoadMore_begin_def Let_def initial_state_def render_def)

theorem load_more_needs_customer_witness:
  "handleLoadMore_begin demo_env initial_state =
     (Threw TypeError, initial_state\<lparr>isLoadingMore := True\<rparr>)
   \<and> (\<exists>req. fst (handleLoadMore_begin demo_env loaded_state) = Awaiting req)"
  using load_more_needs_customer [of loaded_state demo_env]
  by (simp add: fixtures handleLoadMore_begin_def)

section \<open>Initial load\<close>








section \<open>Report export\<close>

lemma table_bodies_append: "table_bodies (xs @ ys) = table_bodies xs @ table_bodies ys"
  by (induction xs rule: table_bodies.induct) simp_all

lemma unparse_rows:
  assumes "cs \<noteq> []"
  shows "unparse (map (\<lambda>c. [(''Customer'', f c), (''Phone'', g c), (''Due Amount'', h c)]) cs) =
           [''Customer'', ''Phone'', ''Due Amount''] # map (\<lambda>c. [f c, g c, h c]) cs"
proof -
  from assms obtain c cs' where "cs = c # cs'" by (cases cs) auto
  then show ?thesis by (simp add: unparse_def)
qed

text \<open>What a successful export holds, and when the export ends with the notice.\<close>

lemma export_pdf_body:
  assumes "getCustomersWithDueBalance e (userId e) \<noteq> []" and "authUser e \<noteq> None"
  shows "pdf_table_body (fst (handleDownload e Pdf st)) =
           Some (map (\<lambda>c. [name c, phone c, ''$'' @ toFixed2 (numberToString e) (dueBalance c)])
                   (getCustomersWithDueBalance e (userId e)))"
  using assms
  by (simp add: handleDownload_def Let_def table_bodies_append Object_values_def comp_def)

lemma export_csv_records:
  assumes "getCustomersWithDueBalance e (userId e) \<noteq> []" and "authUser e \<noteq> None"
  shows "csv_records (fst (handleDownload e Csv st)) =
           Some ([''Customer'', ''Phone'', ''Due Amount''] #
                 map (\<lambda>c. [name c, phone c, ''$'' @ toFixed2 (numberToString e) (dueBalance c)])
                   (getCustomersWithDueBalance e (userId e)))"
  using assms
  by (simp add: handleDownload_def Let_def unparse_rows)

lemma export_csv_data_rows:
  assumes "getCustomersWithDueBalance e (userId e) \<noteq> []" and "authUser e \<noteq> None"
  shows "csv_data_rows (fst (handleDownload e Csv st)) =
           Some (map (\<lambda>c. [name c, phone c, ''$'' @ toFixed2 (numberToString e) (dueBalance c)])
                   (getCustomersWithDueBalance e (userId e)))"
  using assms
  by (simp add: handleDownload_def Let_def unparse_rows)

lemma export_file_name:
  assumes "getCustomersWithDueBalance e (userId e) \<noteq> []" and "authUser e \<noteq> None"
  shows "file_name (fst (handleDownload e formatType st)) =
           Some (''pending-receivables-'' @ format_yyyy_MM_dd (reportClock e) @
                 (if formatType = Pdf then ''.pdf'' else ''.csv''))"
  using assms
  by (simp add: handleDownload_def Let_def)

lemma export_no_data:
  assumes "getCustomersWithDueBalance e (userId e) = [] \<or> authUser e = None"
  shows "fst (handleDownload e formatType st) =
      Notified \<lparr>variant = ''destructive'', title = ''No Data'',
        description = ''There are no pending receivables to download.''\<rparr>"
  using assms by (auto simp add: handleDownload_def Let_def)

text \<open>
  Claim C1, as amended. For either format, an export ends with the "No Data" notice, and
  with no file, exactly when the fetched list of customers is empty or no user is signed
  in; these two are the only conditions answered with that notice. (The claim names the
  empty list alone: see the counterexample.)
\<close>

theorem no_data_notice_iff:
  "(fst (handleDownload e formatType st) =
      Notified \<lparr>variant = ''destructive'', title = ''No Data'',
        description = ''There are no pending receivables to download.''\<rparr>)
     = (getCustomersWithDueBalance e (userId e) = [] \<or> authUser e = None)
   \<and> (notice (fst (handleDownload e formatType st)) \<noteq> None)
     = (getCustomersWithDueBalance e (userId e) = [] \<or> authUser e = None)
   \<and> (file_name (fst (handleDownload e formatType st)) = None)
     = (getCustomersWithDueBalance e (userId e) = [] \<or> authUser e = None)"
  by (cases formatType) (auto simp add: handleDownload_def Let_def)

theorem no_data_notice_iff_witness:
  "file_name (fst (handleDownload demo_env Pdf loaded_state)) \<noteq> None
   \<and> notice (fst (handleDownload demo_env Pdf loaded_state)) = None
   \<and> fst (handleDownload (demo_env\<lparr>getCustomersWithDueBalance := (\<lambda>uid. [])\<rparr>) Csv loaded_state) =
       Notified \<lparr>variant = ''destructive'', title = ''No Data'',
         description = ''There are no pending receivables to download.''\<rparr>"
  using no_data_notice_iff [of demo_env Pdf loaded_state]
    no_data_notice_iff [of "demo_env\<lparr>getCustomersWithDueBalance := (\<lambda>uid. [])\<rparr>" Csv loaded_state]
  by (simp add: demo_env_def)

text \<open>
  The claim as it is written fails when two customers owe money and no user is signed in:
  the notice is shown although the fetched list is not empty.
\<close>

theorem no_data_notice_counterexample:
  "getCustomersWithDueBalance (demo_env\<lparr>authUser := None\<rparr>)
       (userId (demo_env\<lparr>authUser := None\<rparr>)) = [ann, bob]
   \<and> fst (handleDownload (demo_env\<lparr>authUser := None\<rparr>) Csv loaded_state) =
       Notified \<lparr>variant = ''destructive'', title = ''No Data'',
         description = ''There are no pending receivables to download.''\<rparr>"
  by (simp add: demo_env_def handleDownload_def)

text \<open>
  Claim C6, as amended. When a user is signed in and the fetched list has \<open>N > 0\<close>
  customers, the CSV export writes the header record and \<open>N\<close> data records, the table
  of the PDF export has \<open>N\<close> body rows, and the files are named
  \<^verbatim>\<open>pending-receivables-\<close>, the date of the clock as \<^verbatim>\<open>yyyy-MM-dd\<close>, and \<^verbatim>\<open>.csv\<close>
  or \<^verbatim>\<open>.pdf\<close>. (Without a signed-in user no file is produced: see the counterexample.)
\<close>

theorem export_row_counts_and_names:
  assumes "getCustomersWithDueBalance e (userId e) \<noteq> []" and "authUser e \<noteq> None"
  shows "(\<exists>header rows.
            csv_records (fst (handleDownload e Csv st)) = Some (header # rows)
          \<and> header = [''Customer'', ''Phone'', ''Due Amount'']
          \<and> length rows = length (getCustomersWithDueBalance e (userId e)))
       \<and> (\<exists>rows.
            pdf_table_body (fst (handleDownload e Pdf st)) = Some rows
          \<and> length rows = length (getCustomersWithDueBalance e (userId e)))
       \<and> file_name (fst (handleDownload e Pdf st)) =
            Some (''pending-receivables-'' @ format_yyyy_MM_dd (reportClock e) @ ''.pdf'')
       \<and> file_name (fst (handleDownload e Csv st)) =
            Some (''pending-receivables-'' @ format_yyyy_MM_dd (reportClock e) @ ''.csv'')"
  using assms
  by (simp add: export_csv_records export_pdf_body export_file_name)

theorem export_row_counts_and_names_witness:
  "csv_records (fst (handleDownload demo_env Csv loaded_state)) =
      Some [[''Customer'', ''Phone'', ''Due Amount''],
            [''Ann'', ''0171'', ''$1.25''], [''Bob'', ''0181'', ''$20.00'']]
   \<and> file_name (fst (handleDownload demo_env Csv loaded_state)) =
       Some ''pending-receivables-2026-11-02.csv''
   \<and> file_name (fst (handleDownload demo_env Pdf loaded_state)) =
       Some ''pending-receivables-2026-11-02.pdf''
   \<and> (\<exists>rows. pdf_table_body (fst (handleDownload demo_env Pdf loaded_state)) = Some rows
         \<and> length rows = 2)"
proof -
  have h1: "getCustomersWithDueBalance demo_env (userId demo_env) \<noteq> []"
    by (simp add: demo_env_def)
  have h2: "authUser demo_env \<noteq> None"
    by (simp add: demo_env_def)
  have c: "csv_records (fst (handleDownload demo_env Csv loaded_state)) =
      Some [[''Customer'', ''Phone'', ''Due Amount''],
            [''Ann'', ''0171'', ''$1.25''], [''Bob'', ''0181'', ''$20.00'']]"
    by (simp add: export_csv_records [OF h1 h2]) (simp add: fixtures toFixed2_ann toFixed2_bob)
  have d: "format_yyyy_MM_dd (reportClock demo_env) = ''2026-11-02''"
    by (simp add: demo_env_def format_demo)
  have every: "length (getCustomersWithDueBalance demo_env (userId demo_env)) = 2"
    by (simp add: demo_env_def)
  show ?thesis
    using export_row_counts_and_names [OF h1 h2, of loaded_state] c d every
    by simp
qed

text \<open>
  The claim as it is written fails for a list of two customers when no user is signed
  in: neither export produces a file.
\<close>

theorem export_row_counts_and_names_counterexample:
  "getCustomersWithDueBalance (demo_env\<lparr>authUser := None\<rparr>)
       (userId (demo_env\<lparr>authUser := None\<rparr>)) = [ann, bob]
   \<and> file_name (fst (handleDownload (demo_env\<lparr>authUser := None\<rparr>) Csv loaded_state)) = None
   \<and> file_name (fst (handleDownload (demo_env\<lparr>authUser := None\<rparr>) Pdf loaded_state)) = None"
  by (simp add: demo_env_def handleDownload_def)

text \<open>
  Claim C9. An export, in either format, whether it ends with the notice or with a file,
  leaves the pagination state as it was: the list, \<^verbatim>\<open>hasMore\<close> and both loading flags.
\<close>

theorem export_keeps_state:
  "snd (handleDownload e formatType st) = st"
  by (simp add: handleDownload_def Let_def)

theorem export_keeps_state_witness:
  "snd (handleDownload demo_env Pdf loaded_state) = loaded_state
   \<and> snd (handleDownload (demo_env\<lparr>authUser := None\<rparr>) Csv loaded_state) = loaded_state"
  using export_keeps_state [of demo_env Pdf loaded_state]
    export_keeps_state [of "demo_env\<lparr>authUser := None\<rparr>" Csv loaded_state]
  by simp

text \<open>
  Claim C10. For the same fetched list, the body rows of the PDF table and the data
  records of the CSV are the same list: when files are produced, both are the list of
  name, phone and "$" followed by \<^verbatim>\<open>toFixed(2)\<close> of the due balance, one row per
  customer, in the order of the fetched list.
\<close>

theorem export_rows_agree:
  "pdf_table_body (fst (handleDownload e Pdf st)) = csv_data_rows (fst (handleDownload e Csv st))
   \<and> (getCustomersWithDueBalance e (userId e) \<noteq> [] \<and> authUser e \<noteq> None \<longrightarrow>
        pdf_table_body (fst (handleDownload e Pdf st)) =
          Some (map (\<lambda>c. [name c, phone c, ''$'' @ toFixed2 (numberToString e) (dueBalance c)])
                  (getCustomersWithDueBalance e (userId e))))"
proof (cases "getCustomersWithDueBalance e (userId e) = [] \<or> authUser e = None")
  case True
  then show ?thesis by (auto simp add: export_no_data)
next
  case False
  then show ?thesis by (simp add: export_pdf_body export_csv_data_rows)
qed

theorem export_rows_agree_witness:
  "pdf_table_body (fst (handleDownload demo_env Pdf loaded_state)) =
     Some [[''Ann'', ''0171'', ''$1.25''], [''Bob'', ''0181'', ''$20.00'']]
   \<and> csv_data_rows (fst (handleDownload demo_env Csv loaded_state)) =
     Some [[''Ann'', ''0171'', ''$1.25''], [''Bob'', ''0181'', ''$20.00'']]"
proof -
  have h: "getCustomersWithDueBalance demo_env (userId demo_env) \<noteq> []
           \<and> authUser demo_env \<noteq> None"
    by (simp add: demo_env_def)
  have every: "getCustomersWithDueBalance demo_env (userId demo_env) = [ann, bob]"
    and printer: "numberToString demo_env = (\<lambda>x. [])"
    by (simp_all add: demo_env_def)
  note agree = export_rows_agree [of demo_env loaded_state]
  have p: "pdf_table_body (fst (handleDownload demo_env Pdf loaded_state)) =
          Some (map (\<lambda>c. [name c, phone c,
                          ''$'' @ toFixed2 (numberToString demo_env) (dueBalance c)])
                  (getCustomersWithDueBalance demo_env (userId demo_env)))"
    by (rule agree [THEN conjunct2, THEN mp, OF h])
  have q: "csv_data_rows (fst (handleDownload demo_env Csv loaded_state)) =
          pdf_table_body (fst (handleDownload demo_env Pdf loaded_state))"
    by (rule agree [THEN conjunct1, symmetric])
  show ?thesis
    unfolding q p every printer by (simp add: ann_def bob_def toFixed2_ann toFixed2_bob)
qed

section \<open>Amounts\<close>

lemma render_customer_row:
  assumes "\<not> isInitialLoading st" and "c \<in> set (customers st)"
  shows "CustomerRow (id' c) (''/customers/'' @ id' c) (name c) (phone c)
           (''$'' @ toFixed2 (numberToString e) (dueBalance c)) \<in> set (tableBody (render e st))"
proof -
  from assms(2) have "customers st \<noteq> []" by auto
  with assms show ?thesis
    by (simp add: render_def image_iff) blast
qed

text \<open>
  Claim C8, as amended. For every customer whose due balance is a finite number of
  magnitude below \<open>10\<^sup>2\<^sup>1\<close>, \<^verbatim>\<open>toFixed(2)\<close> of the balance has exactly two decimal
  places, and "$" followed by it is the amount of the customer's row in the table (once
  the first page is loaded) and the Due Amount of the customer's row in the PDF table and
  in the CSV (when a user is signed in). (A balance that is NaN is printed with no
  decimal places: see the counterexample.)
\<close>

theorem amounts_two_decimals:
  assumes "dueBalance c = Finite x" and "\<bar>x\<bar> < 10 ^ 21"
  shows "two_decimal_places (toFixed2 (numberToString e) (dueBalance c))
     \<and> (\<not> isInitialLoading st \<and> c \<in> set (customers st) \<longrightarrow>
          CustomerRow (id' c) (''/customers/'' @ id' c) (name c) (phone c)
            (''$'' @ toFixed2 (numberToString e) (dueBalance c)) \<in> set (tableBody (render e st)))
     \<and> (authUser e \<noteq> None \<and> c \<in> set (getCustomersWithDueBalance e (userId e)) \<longrightarrow>
          (\<exists>rows. pdf_table_body (fst (handleDownload e Pdf st)) = Some rows
             \<and> [name c, phone c, ''$'' @ toFixed2 (numberToString e) (dueBalance c)] \<in> set rows)
        \<and> (\<exists>rows. csv_data_rows (fst (handleDownload e Csv st)) = Some rows
             \<and> [name c, phone c, ''$'' @ toFixed2 (numberToString e) (dueBalance c)] \<in> set rows))"
proof -
  have "two_decimal_places (toFixed2 (numberToString e) (dueBalance c))"
    using assms by (simp add: toFixed2_finite)
  moreover have "CustomerRow (id' c) (''/customers/'' @ id' c) (name c) (phone c)
            (''$'' @ toFixed2 (numberToString e) (dueBalance c)) \<in> set (tableBody (render e st))"
    if "\<not> isInitialLoading st" "c \<in> set (customers st)"
    using that by (rule render_customer_row)
  moreover have "(\<exists>rows. pdf_table_body (fst (handleDownload e Pdf st)) = Some rows
             \<and> [name c, phone c, ''$'' @ toFixed2 (numberToString e) (dueBalance c)] \<in> set rows)
        \<and> (\<exists>rows. csv_data_rows (fst (handleDownload e Csv st)) = Some rows
             \<and> [name c, phone c, ''$'' @ toFixed2 (numberToString e) (dueBalance c)] \<in> set rows)"
    if "authUser e \<noteq> None" "c \<in> set (getCustomersWithDueBalance e (userId e))"
  proof -
    from that(2) have ne: "getCustomersWithDueBalance e (userId e) \<noteq> []" by auto
    show ?thesis
      using that(2)
      by (simp add: export_pdf_body [OF ne that(1)] export_csv_data_rows [OF ne that(1)]
            image_iff) blast
  qed
  ultimately show ?thesis by blast
qed

theorem amounts_two_decimals_witness:
  "two_decimal_places ''1.25''
   \<and> CustomerRow ''c1'' ''/customers/c1'' ''Ann'' ''0171'' ''$1.25''
       \<in> set (tableBody (render demo_env loaded_state))
   \<and> (\<exists>rows. pdf_table_body (fst (handleDownload demo_env Pdf loaded_state)) = Some rows
         \<and> [''Ann'', ''0171'', ''$1.25''] \<in> set rows)
   \<and> (\<exists>rows. csv_data_rows (fst (handleDownload demo_env Csv loaded_state)) = Some rows
         \<and> [''Ann'', ''0171'', ''$1.25''] \<in> set rows)"
proof -
  have h1: "dueBalance ann = Finite (5 / 4)" by (simp add: ann_def)
  have h2: "\<bar>5 / 4 :: rat\<bar> < 10 ^ 21" by simp
  have h3: "\<not> isInitialLoading loaded_state \<and> ann \<in> set (customers loaded_state)"
    by (simp add: loaded_state_def)
  have h4: "authUser demo_env \<noteq> None
            \<and> ann \<in> set (getCustomersWithDueBalance demo_env (userId demo_env))"
    by (simp add: demo_env_def)
  have a: "toFixed2 (numberToString demo_env) (dueBalance ann) = ''1.25''"
    unfolding h1 by (simp add: demo_env_def toFixed2_ann)
  have f: "id' ann = ''c1''" "name ann = ''Ann''" "phone ann = ''0171''"
    by (simp_all add: ann_def)
  show ?thesis
    using amounts_two_decimals [OF h1 h2, of demo_env loaded_state] h3 h4
    unfolding a f by simp
qed

text \<open>
  The claim as it is written fails for a customer whose due balance is NaN: the table, the
  CSV and the PDF all show \<^verbatim>\<open>$NaN\<close>, which has no decimal places.
\<close>

theorem amounts_two_decimals_counterexample:
  "tableBody (render demo_env (loaded_state\<lparr>customers := [carl]\<rparr>)) =
     [CustomerRow ''c3'' ''/customers/c3'' ''Carl'' ''0191'' ''$NaN'']
   \<and> csv_data_rows
        (fst (handleDownload (demo_env\<lparr>getCustomersWithDueBalance := (\<lambda>uid. [carl])\<rparr>) Csv
               loaded_state)) =
     Some [[''Carl'', ''0191'', ''$NaN'']]
   \<and> pdf_table_body
        (fst (handleDownload (demo_env\<lparr>getCustomersWithDueBalance := (\<lambda>uid. [carl])\<rparr>) Pdf
               loaded_state)) =
     Some [[''Carl'', ''0191'', ''$NaN'']]
   \<and> \<not> two_decimal_places ''NaN''"
proof -
  have t: "tableBody (render demo_env (loaded_state\<lparr>customers := [carl]\<rparr>)) =
     [CustomerRow ''c3'' ''/customers/c3'' ''Carl'' ''0191'' ''$NaN'']"
    by (simp add: render_def loaded_state_def carl_def toFixed2_NaN)
  have h: "getCustomersWithDueBalance (demo_env\<lparr>getCustomersWithDueBalance := (\<lambda>uid. [carl])\<rparr>)
             (userId (demo_env\<lparr>getCustomersWithDueBalance := (\<lambda>uid. [carl])\<rparr>)) \<noteq> []"
     "authUser (demo_env\<lparr>getCustomersWithDueBalance := (\<lambda>uid. [carl])\<rparr>) \<noteq> None"
    by (simp_all add: demo_env_def)
  have c: "csv_data_rows
        (fst (handleDownload (demo_env\<lparr>getCustomersWithDueBalance := (\<lambda>uid. [carl])\<rparr>) Csv
               loaded_state)) =
     Some [[''Carl'', ''0191'', ''$NaN'']]"
    by (simp add: export_csv_data_rows [OF h]) (simp add: carl_def toFixed2_NaN)
  have p: "pdf_table_body
        (fst (handleDownload (demo_env\<lparr>getCustomersWithDueBalance := (\<lambda>uid. [carl])\<rparr>) Pdf
               loaded_state)) =
     Some [[''Carl'', ''0191'', ''$NaN'']]"
    by (simp add: export_pdf_body [OF h]) (simp add: carl_def toFixed2_NaN)
  have d: "\<not> two_decimal_places ''NaN''"
    by (simp add: two_decimal_places_def)
  from t c p d show ?thesis by simp
qed

end
